theory Spec2Isabelle
  imports Complex_Main "HOL-Library.Char_ord" "HOL-Library.List_Lexorder" "HOL-Library.Sublist"
    "HOL-Library.Log_Nat"
begin

section \<open>The loan service: domain types\<close>

text \<open>
  The model follows \<^verbatim>\<open>internal/domain\<close>, \<^verbatim>\<open>internal/repository/loan_repository.go\<close> and
  \<^verbatim>\<open>internal/service/loan_service.go\<close>.

  Conventions of the embedding:
  \<^item> a Go struct is a record whose fields carry the struct's name as a prefix
    (\<open>Loan_State\<close> is \<^verbatim>\<open>Loan.State\<close>);
  \<^item> a \<^verbatim>\<open>float64\<close> is the real number it denotes; Go's \<^verbatim>\<open>+\<close> on two of them is \<open>f64_add\<close>, the
    exact sum rounded to the nearest \<^verbatim>\<open>float64\<close> (section "float64 arithmetic"); \<^verbatim>\<open>>\<close>,
    \<^verbatim>\<open><=\<close> and \<^verbatim>\<open>==\<close> on finite values are the comparisons of the reals;
  \<^item> \<^verbatim>\<open>time.Time\<close> is an instant counted as a natural number;
  \<^item> the database behind GORM is a record of five tables, each a list of rows in insertion
    order; primary keys and the \<^verbatim>\<open>unique\<close> tag on \<^verbatim>\<open>loan_id\<close> are enforced on insert;
  \<^item> every repository method can fail for reasons of the storage engine (lost connection,
    cancelled \<^verbatim>\<open>ctx\<close>, malformed key): the set \<open>outage\<close> names the methods that do so during
    one service call, in which each method is called at most once; the \<^verbatim>\<open>ctx\<close> argument itself,
    which the service only hands on to the repository, is not a parameter of the model;
  \<^item> foreign keys are not checked on insert: on every path of the service the rows an insert
    refers to were read or created by the same call, and nothing deletes rows;
  \<^item> \<^verbatim>\<open>uuid.New()\<close> and \<^verbatim>\<open>time.Now()\<close> are inputs: \<open>uuid_New k\<close> and \<open>time_Now k\<close> are
    what the \<open>k\<close>-th call site (in textual order, from 0) of the function body returns;
  \<^item> a service method returns its Go result \<^verbatim>\<open>(*domain.Loan, error)\<close> as \<open>error + Loan\<close>
    together with the database it leaves behind.
\<close>

type_synonym time = nat

datatype LoanState =
    LoanStateProposed
  | LoanStateApproved
  | LoanStateInvested
  | LoanStateDisbursed

fun LoanState_string :: "LoanState \<Rightarrow> string" where
  "LoanState_string LoanStateProposed = ''proposed''"
| "LoanState_string LoanStateApproved = ''approved''"
| "LoanState_string LoanStateInvested = ''invested''"
| "LoanState_string LoanStateDisbursed = ''disbursed''"

record Approval =
  Approval_ID :: string
  Approval_LoanID :: string
  Approval_PictureURL :: string
  Approval_EmployeeID :: string
  Approval_ApprovalDate :: time
  Approval_CreatedAt :: time

record Disbursement =
  Disbursement_ID :: string
  Disbursement_LoanID :: string
  Disbursement_AgreementURL :: string
  Disbursement_EmployeeID :: string
  Disbursement_DisbursementDate :: time
  Disbursement_CreatedAt :: time

record Investor =
  Investor_ID :: string
  Investor_Name :: string
  Investor_Email :: string
  Investor_CreatedAt :: time

record Investment =
  Investment_ID :: string
  Investment_LoanID :: string
  Investment_InvestorID :: string
  Investment_Amount :: real
  Investment_CreatedAt :: time

record Loan =
  Loan_ID :: string
  Loan_BorrowerID :: string
  Loan_Principal :: real
  Loan_Rate :: real
  Loan_ROI :: real
  Loan_AgreementLetterURL :: string
  Loan_State :: LoanState
  Loan_CreatedAt :: time
  Loan_UpdatedAt :: time
  Loan_Approval :: "Approval option"
  Loan_Investments :: "Investment list"
  Loan_Disbursement :: "Disbursement option"

section \<open>float64 arithmetic\<close>

text \<open>
  Amounts, totals and principals are Go \<^verbatim>\<open>float64\<close> values (IEEE 754 binary64). A finite value
  is the real number \<open>m * 2 ^ e\<close> with \<open>\<bar>m\<bar> < 2 ^ 53\<close> and \<open>- 1074 \<le> e\<close>. Addition computes the
  exact sum and rounds it to the nearest such number, ties to the even \<open>m\<close>:
  \<^item> \<open>ilog2 a\<close> is \<open>\<lfloor>log 2 a\<rfloor>\<close> for \<open>a > 0\<close>, computed from bit lengths;
  \<^item> \<open>scale2 x e\<close> is \<open>x * 2 ^ e\<close>;
  \<^item> \<open>round_half_even q\<close> is the integer nearest to \<open>q\<close>, the even one at a tie;
  \<^item> \<open>f64_round x\<close> rounds \<open>x\<close> to 53 significant bits, to a multiple of \<open>2 ^ - 1074\<close> in the
    subnormal range;
  \<^item> \<open>f64_add x y\<close> is Go's \<^verbatim>\<open>x + y\<close>; \<open>f64_sum xs\<close> adds the elements from the left, starting
    from 0.
  The exponent is not bounded above: a sum beyond the largest \<^verbatim>\<open>float64\<close> is \<^verbatim>\<open>+Inf\<close> in Go,
  which is greater than every principal and equal to none, as is the rounded value here.
  \<^verbatim>\<open>NaN\<close> and the infinities are not amounts: the handlers decode amounts from JSON numbers.
\<close>

definition ilog2 :: "real \<Rightarrow> int" where
  "ilog2 a = (if 1 \<le> a then bitlen \<lfloor>a\<rfloor> - 1 else - bitlen (\<lceil>1 / a\<rceil> - 1))"

definition scale2 :: "real \<Rightarrow> int \<Rightarrow> real" where
  "scale2 x e = (if 0 \<le> e then x * 2 ^ nat e else x / 2 ^ nat (- e))"

definition round_half_even :: "real \<Rightarrow> int" where
  "round_half_even q =
     (let f = \<lfloor>q\<rfloor>; r = q - of_int f
      in if r < 1 / 2 then f else if 1 / 2 < r then f + 1 else if even f then f else f + 1)"

definition f64_round :: "real \<Rightarrow> real" where
  "f64_round x =
     (if x = 0 then 0
      else let e = max (ilog2 \<bar>x\<bar> - 52) (- 1074)
           in scale2 (of_int (round_half_even (scale2 x (- e)))) e)"

definition f64_add :: "real \<Rightarrow> real \<Rightarrow> real" where
  "f64_add x y = f64_round (x + y)"

definition f64_sum :: "real list \<Rightarrow> real" where
  "f64_sum xs = foldl f64_add 0 xs"

section \<open>Errors\<close>

text \<open>
  The service reports errors as Go \<^verbatim>\<open>error\<close> values. Each constructor is one error the code
  builds, named as the specification's taxonomy names it:
  \<^item> \<open>NotFound\<close> is \<^verbatim>\<open>gorm.ErrRecordNotFound\<close>;
  \<^item> \<open>PersistenceFailure\<close> is any other error of the storage engine;
  \<^item> \<open>InvalidAmount\<close> is \<^verbatim>\<open>"amount must be positive"\<close>;
  \<^item> \<open>AlreadyFunded\<close> is \<^verbatim>\<open>"loan already fully funded"\<close>;
  \<^item> \<open>InvalidState msg\<close> carries the text built by \<^verbatim>\<open>fmt.Errorf("loan must be ..., current state: %s", loan.State)\<close>;
  \<^item> \<open>AlreadyApproved\<close> is \<^verbatim>\<open>"loan already approved"\<close>, \<open>AlreadyDisbursed\<close> is \<^verbatim>\<open>"loan already disbursed"\<close>;
  \<^item> \<open>OverFunding T a p\<close> is \<^verbatim>\<open>"investment would exceed principal; ..."\<close> with the current total,
    the new amount and the principal it prints.
\<close>

datatype error =
    NotFound
  | PersistenceFailure
  | InvalidAmount
  | AlreadyFunded
  | InvalidState string
  | AlreadyApproved
  | AlreadyDisbursed
  | OverFunding real real real

section \<open>The repository\<close>

datatype repo_call =
    CallGetLoanByID
  | CallUpdateLoan
  | CallCreateApproval
  | CallCreateInvestment
  | CallCreateDisbursement
  | CallGetTotalInvested
  | CallCreateInvestor
  | CallGetInvestorByID
  | CallFindInvestorByEmail

record db =
  loans :: "Loan list"
  approvals :: "Approval list"
  investors :: "Investor list"
  investments :: "Investment list"
  disbursements :: "Disbursement list"

text \<open>
  The \<^verbatim>\<open>loans\<close> table has no column for the three associations of the struct: a stored row
  keeps them empty, and \<open>GetLoanByID\<close> fills them from the other tables (\<^verbatim>\<open>Preload\<close>).
\<close>

definition loan_columns :: "Loan \<Rightarrow> Loan" where
  "loan_columns l = l\<lparr>Loan_Approval := None, Loan_Investments := [], Loan_Disbursement := None\<rparr>"

definition GetLoanByID :: "repo_call set \<Rightarrow> string \<Rightarrow> db \<Rightarrow> error + Loan" where
  "GetLoanByID out ident d =
     (if CallGetLoanByID \<in> out then Inl PersistenceFailure
      else case find (\<lambda>r. Loan_ID r = ident) (loans d) of
             None \<Rightarrow> Inl NotFound
           | Some r \<Rightarrow> Inr (r\<lparr>
               Loan_Approval := find (\<lambda>a. Approval_LoanID a = Loan_ID r) (approvals d),
               Loan_Investments := filter (\<lambda>i. Investment_LoanID i = Loan_ID r) (investments d),
               Loan_Disbursement := find (\<lambda>x. Disbursement_LoanID x = Loan_ID r) (disbursements d)\<rparr>))"

text \<open>
  \<^verbatim>\<open>Save\<close> writes every column of the row with the loan's primary key, and inserts the row when
  no row has that key. The associated rows a loan carries were loaded from the same tables,
  so saving them again changes nothing.
\<close>

definition UpdateLoan :: "repo_call set \<Rightarrow> Loan \<Rightarrow> db \<Rightarrow> error + db" where
  "UpdateLoan out l d =
     (if CallUpdateLoan \<in> out then Inl PersistenceFailure
      else if \<exists>r \<in> set (loans d). Loan_ID r = Loan_ID l
        then Inr (d\<lparr>loans := map (\<lambda>r. if Loan_ID r = Loan_ID l then loan_columns l else r) (loans d)\<rparr>)
        else Inr (d\<lparr>loans := loans d @ [loan_columns l]\<rparr>))"

definition CreateApproval :: "repo_call set \<Rightarrow> Approval \<Rightarrow> db \<Rightarrow> error + db" where
  "CreateApproval out a d =
     (if CallCreateApproval \<in> out then Inl PersistenceFailure
      else if \<exists>x \<in> set (approvals d).
                Approval_ID x = Approval_ID a \<or> Approval_LoanID x = Approval_LoanID a
        then Inl PersistenceFailure
        else Inr (d\<lparr>approvals := approvals d @ [a]\<rparr>))"

definition CreateInvestment :: "repo_call set \<Rightarrow> Investment \<Rightarrow> db \<Rightarrow> error + db" where
  "CreateInvestment out i d =
     (if CallCreateInvestment \<in> out then Inl PersistenceFailure
      else if \<exists>x \<in> set (investments d). Investment_ID x = Investment_ID i
        then Inl PersistenceFailure
        else Inr (d\<lparr>investments := investments d @ [i]\<rparr>))"

definition CreateDisbursement :: "repo_call set \<Rightarrow> Disbursement \<Rightarrow> db \<Rightarrow> error + db" where
  "CreateDisbursement out x d =
     (if CallCreateDisbursement \<in> out then Inl PersistenceFailure
      else if \<exists>y \<in> set (disbursements d).
                Disbursement_ID y = Disbursement_ID x \<or> Disbursement_LoanID y = Disbursement_LoanID x
        then Inl PersistenceFailure
        else Inr (d\<lparr>disbursements := disbursements d @ [x]\<rparr>))"

text \<open>
  \<^verbatim>\<open>SELECT COALESCE(SUM(amount),0) FROM investments WHERE loan_id = ?\<close>, scanned into
  \<^verbatim>\<open>total float64\<close>. The amounts are stored as the \<^verbatim>\<open>float64\<close> values the service passed; the
  arithmetic of the engine's \<^verbatim>\<open>SUM\<close> is not in the repository's source and is taken to be
  \<^verbatim>\<open>float64\<close> addition over the loan's rows in insertion order. No row gives 0.
\<close>

definition total_invested :: "db \<Rightarrow> string \<Rightarrow> real" where
  "total_invested d loanID =
     f64_sum (map Investment_Amount (filter (\<lambda>i. Investment_LoanID i = loanID) (investments d)))"

definition GetTotalInvested :: "repo_call set \<Rightarrow> string \<Rightarrow> db \<Rightarrow> error + real" where
  "GetTotalInvested out loanID d =
     (if CallGetTotalInvested \<in> out then Inl PersistenceFailure
      else Inr (total_invested d loanID))"

definition CreateInvestor :: "repo_call set \<Rightarrow> Investor \<Rightarrow> db \<Rightarrow> error + db" where
  "CreateInvestor out investor d =
     (if CallCreateInvestor \<in> out then Inl PersistenceFailure
      else if \<exists>x \<in> set (investors d). Investor_ID x = Investor_ID investor
        then Inl PersistenceFailure
        else Inr (d\<lparr>investors := investors d @ [investor]\<rparr>))"

definition GetInvestorByID :: "repo_call set \<Rightarrow> string \<Rightarrow> db \<Rightarrow> error + Investor" where
  "GetInvestorByID out ident d =
     (if CallGetInvestorByID \<in> out then Inl PersistenceFailure
      else case find (\<lambda>x. Investor_ID x = ident) (investors d) of
             None \<Rightarrow> Inl NotFound
           | Some investor \<Rightarrow> Inr investor)"

text \<open>
  \<^verbatim>\<open>Where("email = ?", email).First(&inv)\<close>: of the rows with that address, \<^verbatim>\<open>First\<close> takes the
  one with the least primary key; no row is \<^verbatim>\<open>(nil, nil)\<close>, here \<open>Inr None\<close>.
\<close>

definition FindInvestorByEmail :: "repo_call set \<Rightarrow> string \<Rightarrow> db \<Rightarrow> error + Investor option" where
  "FindInvestorByEmail out email d =
     (if CallFindInvestorByEmail \<in> out then Inl PersistenceFailure
      else case filter (\<lambda>x. Investor_Email x = email) (investors d) of
             [] \<Rightarrow> Inr None
           | x # xs \<Rightarrow> Inr (Some (arg_min_list Investor_ID (x # xs))))"

section \<open>The service\<close>

record env =
  outage :: "repo_call set"
  uuid_New :: "nat \<Rightarrow> string"
  time_Now :: "nat \<Rightarrow> time"

definition ApproveLoan ::
  "env \<Rightarrow> string \<Rightarrow> string \<Rightarrow> string \<Rightarrow> time \<Rightarrow> db \<Rightarrow> (error + Loan) \<times> db" where
  "ApproveLoan e loanID pictureURL employeeID approvalDate d =
     (case GetLoanByID (outage e) loanID d of
        Inl err \<Rightarrow> (Inl err, d)
      | Inr loan \<Rightarrow>
          if Loan_State loan \<noteq> LoanStateProposed then
            (Inl (InvalidState (''loan must be in proposed state to approve, current state: ''
                                  @ LoanState_string (Loan_State loan))), d)
          else if Loan_Approval loan \<noteq> None then (Inl AlreadyApproved, d)
          else
            let approval = \<lparr>Approval_ID = uuid_New e 0, Approval_LoanID = Loan_ID loan,
                            Approval_PictureURL = pictureURL, Approval_EmployeeID = employeeID,
                            Approval_ApprovalDate = approvalDate, Approval_CreatedAt = time_Now e 0\<rparr>;
                loan1 = loan\<lparr>Loan_State := LoanStateApproved, Loan_UpdatedAt := time_Now e 1\<rparr>
            in case CreateApproval (outage e) approval d of
                 Inl err \<Rightarrow> (Inl err, d)
               | Inr d1 \<Rightarrow>
                   (case UpdateLoan (outage e) loan1 d1 of
                      Inl err \<Rightarrow> (Inl err, d1)
                    | Inr d2 \<Rightarrow> (Inr (loan1\<lparr>Loan_Approval := Some approval\<rparr>), d2)))"

definition DisburseLoan ::
  "env \<Rightarrow> string \<Rightarrow> string \<Rightarrow> string \<Rightarrow> time \<Rightarrow> db \<Rightarrow> (error + Loan) \<times> db" where
  "DisburseLoan e loanID agreementURL employeeID disbursementDate d =
     (case GetLoanByID (outage e) loanID d of
        Inl err \<Rightarrow> (Inl err, d)
      | Inr loan \<Rightarrow>
          if Loan_State loan \<noteq> LoanStateInvested then
            (Inl (InvalidState (''loan must be invested to disburse, current state: ''
                                  @ LoanState_string (Loan_State loan))), d)
          else if Loan_Disbursement loan \<noteq> None then (Inl AlreadyDisbursed, d)
          else
            let disb = \<lparr>Disbursement_ID = uuid_New e 0, Disbursement_LoanID = Loan_ID loan,
                        Disbursement_AgreementURL = agreementURL, Disbursement_EmployeeID = employeeID,
                        Disbursement_DisbursementDate = disbursementDate,
                        Disbursement_CreatedAt = time_Now e 0\<rparr>;
                loan1 = loan\<lparr>Loan_State := LoanStateDisbursed, Loan_UpdatedAt := time_Now e 1\<rparr>
            in case CreateDisbursement (outage e) disb d of
                 Inl err \<Rightarrow> (Inl err, d)
               | Inr d1 \<Rightarrow>
                   (case UpdateLoan (outage e) loan1 d1 of
                      Inl err \<Rightarrow> (Inl err, d1)
                    | Inr d2 \<Rightarrow> (Inr (loan1\<lparr>Loan_Disbursement := Some disb\<rparr>), d2)))"

text \<open>
  \<open>InvestInLoan\<close> is one Go function. Its body is given here in three consecutive blocks, so
  that statements about one block can name it:
  \<^item> \<open>resolve_investor\<close>: lines 134-163, "Retrieve or create investor";
  \<^item> \<open>invest_check\<close>: lines 118-171, everything up to and including the over-funding guard
    (it contains \<open>resolve_investor\<close>); it yields the loan read, the investor and \<^verbatim>\<open>currentTotal\<close>;
  \<^item> \<open>invest_record\<close>: lines 172-199, the insert of the investment row, the promotion and the
    returned loan.
\<close>

definition resolve_investor ::
  "env \<Rightarrow> string \<Rightarrow> string \<Rightarrow> string \<Rightarrow> db \<Rightarrow> (error + Investor) \<times> db" where
  "resolve_investor e investorID investorName investorEmail d =
     (if investorID \<noteq> [] then
        (case GetInvestorByID (outage e) investorID d of
           Inl err \<Rightarrow> (Inl err, d)
         | Inr investor \<Rightarrow> (Inr investor, d))
      else
        (case (if investorEmail \<noteq> [] then FindInvestorByEmail (outage e) investorEmail d
               else Inr None) of
           Inl err \<Rightarrow> (Inl err, d)
         | Inr (Some existing) \<Rightarrow> (Inr existing, d)
         | Inr None \<Rightarrow>
             let investor = \<lparr>Investor_ID = uuid_New e 0, Investor_Name = investorName,
                             Investor_Email = investorEmail, Investor_CreatedAt = time_Now e 0\<rparr>
             in case CreateInvestor (outage e) investor d of
                  Inl err \<Rightarrow> (Inl err, d)
                | Inr d1 \<Rightarrow> (Inr investor, d1)))"

definition invest_check ::
  "env \<Rightarrow> string \<Rightarrow> string \<Rightarrow> string \<Rightarrow> string \<Rightarrow> real \<Rightarrow> db
     \<Rightarrow> (error + Loan \<times> Investor \<times> real) \<times> db" where
  "invest_check e loanID investorID investorName investorEmail amount d =
     (if amount \<le> 0 then (Inl InvalidAmount, d)
      else case GetLoanByID (outage e) loanID d of
        Inl err \<Rightarrow> (Inl err, d)
      | Inr loan \<Rightarrow>
          if Loan_State loan = LoanStateInvested then (Inl AlreadyFunded, d)
          else if Loan_State loan \<noteq> LoanStateApproved then
            (Inl (InvalidState (''loan must be approved to invest, current state: ''
                                  @ LoanState_string (Loan_State loan))), d)
          else
            (case resolve_investor e investorID investorName investorEmail d of
               (Inl err, d1) \<Rightarrow> (Inl err, d1)
             | (Inr investor, d1) \<Rightarrow>
                 (case GetTotalInvested (outage e) (Loan_ID loan) d1 of
                    Inl err \<Rightarrow> (Inl err, d1)
                  | Inr currentTotal \<Rightarrow>
                      if f64_add currentTotal amount > Loan_Principal loan then
                        (Inl (OverFunding currentTotal amount (Loan_Principal loan)), d1)
                      else (Inr (loan, investor, currentTotal), d1))))"

definition invest_record ::
  "env \<Rightarrow> Loan \<Rightarrow> Investor \<Rightarrow> real \<Rightarrow> real \<Rightarrow> db \<Rightarrow> (error + Loan) \<times> db" where
  "invest_record e loan investor currentTotal amount d =
     (let invRec = \<lparr>Investment_ID = uuid_New e 1, Investment_LoanID = Loan_ID loan,
                    Investment_InvestorID = Investor_ID investor, Investment_Amount = amount,
                    Investment_CreatedAt = time_Now e 1\<rparr>
      in case CreateInvestment (outage e) invRec d of
           Inl err \<Rightarrow> (Inl err, d)
         | Inr d1 \<Rightarrow>
             let newTotal = f64_add currentTotal amount in
             if newTotal = Loan_Principal loan then
               (let loan1 = loan\<lparr>Loan_State := LoanStateInvested, Loan_UpdatedAt := time_Now e 2\<rparr>
                in case UpdateLoan (outage e) loan1 d1 of
                     Inl err \<Rightarrow> (Inl err, d1)
                   | Inr d2 \<Rightarrow>
                       (Inr (loan1\<lparr>Loan_Investments := Loan_Investments loan1 @ [invRec]\<rparr>), d2))
             else (Inr (loan\<lparr>Loan_Investments := Loan_Investments loan @ [invRec]\<rparr>), d1))"

definition InvestInLoan ::
  "env \<Rightarrow> string \<Rightarrow> string \<Rightarrow> string \<Rightarrow> string \<Rightarrow> real \<Rightarrow> db \<Rightarrow> (error + Loan) \<times> db" where
  "InvestInLoan e loanID investorID investorName investorEmail amount d =
     (case invest_check e loanID investorID investorName investorEmail amount d of
        (Inl err, d1) \<Rightarrow> (Inl err, d1)
      | (Inr (loan, investor, currentTotal), d1) \<Rightarrow>
          invest_record e loan investor currentTotal amount d1)"

section \<open>Vocabulary of the properties\<close>






definition loan_state :: "db \<Rightarrow> string \<Rightarrow> LoanState option" where
  "loan_state d loanID = map_option Loan_State (find (\<lambda>r. Loan_ID r = loanID) (loans d))"






subsection \<open>A worked scenario\<close>

text \<open>
  One loan of principal 1000 is approved, receives 400 from Alice, then 600 from Bob, and is
  disbursed. \<open>ex_env out u0 u1\<close> is an environment in which the storage calls in \<open>out\<close> fail,
  the two \<^verbatim>\<open>uuid.New()\<close> sites return \<open>u0\<close> and \<open>u1\<close>, and the clock sites return 100, 101, 102.
\<close>

definition ex_env :: "repo_call set \<Rightarrow> string \<Rightarrow> string \<Rightarrow> env" where
  "ex_env out u0 u1 =
     \<lparr>outage = out, uuid_New = (\<lambda>k. if k = 0 then u0 else u1), time_Now = (\<lambda>k. 100 + k)\<rparr>"

definition ex_loan :: "LoanState \<Rightarrow> time \<Rightarrow> Loan" where
  "ex_loan st upd =
     \<lparr>Loan_ID = ''L1'', Loan_BorrowerID = ''B1'', Loan_Principal = 1000, Loan_Rate = 10,
      Loan_ROI = 8, Loan_AgreementLetterURL = ''agreement.pdf'', Loan_State = st,
      Loan_CreatedAt = 1, Loan_UpdatedAt = upd,
      Loan_Approval = None, Loan_Investments = [], Loan_Disbursement = None\<rparr>"

definition ex_db_proposed :: db where
  "ex_db_proposed =
     \<lparr>loans = [ex_loan LoanStateProposed 1], approvals = [], investors = [], investments = [],
      disbursements = []\<rparr>"

definition ex_db_approved :: db where
  "ex_db_approved =
     snd (ApproveLoan (ex_env {} ''a1'' []) ''L1'' ''proof.jpg'' ''EMP001'' 5 ex_db_proposed)"

definition ex_db_400 :: db where
  "ex_db_400 =
     snd (InvestInLoan (ex_env {} ''i1'' ''v1'') ''L1'' [] ''Alice'' ''alice@example.com'' 400
            ex_db_approved)"

definition ex_db_funded :: db where
  "ex_db_funded =
     snd (InvestInLoan (ex_env {} ''i2'' ''v2'') ''L1'' [] ''Bob'' ''bob@example.com'' 600 ex_db_400)"

definition ex_db_disbursed :: db where
  "ex_db_disbursed =
     snd (DisburseLoan (ex_env {} ''d1'' []) ''L1'' ''signed.pdf'' ''EMP002'' 9 ex_db_funded)"

definition ex_approval :: Approval where
  "ex_approval = \<lparr>Approval_ID = ''a1'', Approval_LoanID = ''L1'', Approval_PictureURL = ''proof.jpg'',
                    Approval_EmployeeID = ''EMP001'', Approval_ApprovalDate = 5,
                    Approval_CreatedAt = 100\<rparr>"

definition ex_investor :: "string \<Rightarrow> string \<Rightarrow> string \<Rightarrow> Investor" where
  "ex_investor u nm em = \<lparr>Investor_ID = u, Investor_Name = nm, Investor_Email = em, Investor_CreatedAt = 100\<rparr>"

definition ex_investment :: "string \<Rightarrow> string \<Rightarrow> real \<Rightarrow> Investment" where
  "ex_investment u i a = \<lparr>Investment_ID = u, Investment_LoanID = ''L1'', Investment_InvestorID = i,
                           Investment_Amount = a, Investment_CreatedAt = 101\<rparr>"

definition ex_disbursement :: Disbursement where
  "ex_disbursement = \<lparr>Disbursement_ID = ''d1'', Disbursement_LoanID = ''L1'',
                        Disbursement_AgreementURL = ''signed.pdf'',
                        Disbursement_EmployeeID = ''EMP002'', Disbursement_DisbursementDate = 9,
                        Disbursement_CreatedAt = 100\<rparr>"



section \<open>Auxiliary facts\<close>

subsection \<open>float64 arithmetic\<close>

text \<open>
  The definitions evaluate. The decimal fractions below are the familiar cases: \<^verbatim>\<open>0.1 + 0.2\<close> is
  \<^verbatim>\<open>0.30000000000000004\<close>, above \<^verbatim>\<open>0.3\<close>, and \<^verbatim>\<open>0.1 + 0.4\<close> is \<^verbatim>\<open>0.5\<close> although the exact sum of
  the two \<^verbatim>\<open>float64\<close> values is above one half.
\<close>

lemmas f64_eval = f64_add_def f64_round_def ilog2_def round_half_even_def scale2_def Let_def compute_bitlen

lemma f64_round_tenths:
  "f64_round (1 / 10) = 3602879701896397 / 36028797018963968"
  "f64_round (2 / 10) = 3602879701896397 / 18014398509481984"
  "f64_round (3 / 10) = 5404319552844595 / 18014398509481984"
  "f64_round (4 / 10) = 3602879701896397 / 9007199254740992"
  by (simp_all add: f64_eval)

lemma f64_add_tenths:
  "f64_add (f64_round (1 / 10)) (f64_round (2 / 10)) = 1351079888211149 / 4503599627370496"
  "f64_round (3 / 10) < f64_add (f64_round (1 / 10)) (f64_round (2 / 10))"
  "f64_add (f64_round (1 / 10)) (f64_round (4 / 10)) = 1 / 2"
  "1 / 2 < f64_round (1 / 10) + f64_round (4 / 10)"
  by (simp_all add: f64_round_tenths) (simp_all add: f64_eval)



lemma round_half_even_int [simp]: "round_half_even (of_int k) = k"
  by (simp add: round_half_even_def)

lemma bitlen_le_54:
  assumes "0 < n" "n \<le> 2 ^ 53"
  shows "1 \<le> bitlen n \<and> bitlen n \<le> 54 \<and> (bitlen n = 54 \<longrightarrow> n = 2 ^ 53)"
proof -
  from bitlen_bounds[OF assms(1)] have lo: "(2::int) ^ nat (bitlen n - 1) \<le> n"
    and hi: "n < 2 ^ nat (bitlen n)" by simp_all
  have pos: "1 \<le> bitlen n"
    using assms(1) bitlen_eq_zero_iff[of n] bitlen_nonneg[of n] by linarith
  have "(2::int) ^ nat (bitlen n - 1) \<le> 2 ^ 53" using lo assms(2) by linarith
  then have "nat (bitlen n - 1) \<le> 53"
    by (rule power_le_imp_le_exp[where a = "2::int", rotated]) simp
  then have le: "bitlen n \<le> 54" by linarith
  have "n = 2 ^ 53" if "bitlen n = 54"
    using lo assms(2) that by simp
  with pos le show ?thesis by simp
qed

lemma f64_round_of_int:
  assumes "\<bar>n\<bar> \<le> 2 ^ 53"
  shows "f64_round (of_int n) = of_int n"
proof (cases "n = 0")
  case True
  then show ?thesis by (simp add: f64_round_def)
next
  case False
  then have pos: "0 < \<bar>n\<bar>" by simp
  note b = bitlen_le_54[OF pos assms]
  have a1: "(1::real) \<le> \<bar>of_int n\<bar>" using pos by (simp flip: of_int_abs)
  have il: "ilog2 \<bar>of_int n :: real\<bar> = bitlen \<bar>n\<bar> - 1"
    using a1 by (simp add: ilog2_def flip: of_int_abs)
  have e: "max (ilog2 \<bar>of_int n :: real\<bar> - 52) (- 1074) = bitlen \<bar>n\<bar> - 53"
    using b by (simp add: il)
  show ?thesis
  proof (cases "bitlen \<bar>n\<bar> = 54")
    case True
    with b have "\<bar>n\<bar> = 2 ^ 53" by simp
    then have "n = 2 ^ 53 \<or> n = - (2 ^ 53)" by linarith
    then show ?thesis
      using False e True
      by (auto simp: f64_round_def Let_def scale2_def round_half_even_def)
  next
    case ne: False
    with b have le: "bitlen \<bar>n\<bar> \<le> 53" by simp
    define k where "k = nat (53 - bitlen \<bar>n\<bar>)"
    have s1: "scale2 (of_int n) (53 - bitlen \<bar>n\<bar>) = of_int (n * 2 ^ k)"
      using le by (simp add: scale2_def k_def)
    have s2: "scale2 (of_int (n * 2 ^ k)) (bitlen \<bar>n\<bar> - 53) = of_int n"
      using le by (auto simp: scale2_def k_def)
    show ?thesis
      using False by (simp add: f64_round_def Let_def e s1 s2 del: of_int_mult of_int_power)
  qed
qed

lemma f64_round_Ints: "x \<in> \<int> \<Longrightarrow> \<bar>x\<bar> \<le> 2 ^ 53 \<Longrightarrow> f64_round x = x"
proof -
  assume "x \<in> \<int>" and b: "\<bar>x\<bar> \<le> 2 ^ 53"
  then obtain n where x: "x = of_int n" by (auto elim: Ints_cases)
  with b have "real_of_int \<bar>n\<bar> \<le> real_of_int (2 ^ 53)" by simp
  then have "\<bar>n\<bar> \<le> 2 ^ 53" by (simp only: of_int_le_iff)
  from f64_round_of_int[OF this] x show ?thesis by simp
qed







subsection \<open>The repository and the blocks of the service\<close>

lemma GetLoanByID_Inr:
  assumes "GetLoanByID out ident d = Inr loan"
  shows "\<exists>r \<in> set (loans d). find (\<lambda>r. Loan_ID r = ident) (loans d) = Some r \<and> Loan_ID r = ident
           \<and> Loan_ID loan = ident \<and> Loan_Principal loan = Loan_Principal r
           \<and> Loan_State loan = Loan_State r
           \<and> Loan_Approval loan = find (\<lambda>a. Approval_LoanID a = ident) (approvals d)
           \<and> Loan_Investments loan = filter (\<lambda>i. Investment_LoanID i = ident) (investments d)
           \<and> Loan_Disbursement loan = find (\<lambda>x. Disbursement_LoanID x = ident) (disbursements d)
           \<and> loan_columns loan = loan_columns r"
  using assms
  by (auto simp: GetLoanByID_def loan_columns_def find_Some_iff split: if_splits option.splits)

lemma resolve_investor_frame:
  assumes "resolve_investor e i n m d = (res, d1)"
  shows "loans d1 = loans d \<and> approvals d1 = approvals d \<and> investments d1 = investments d
         \<and> disbursements d1 = disbursements d"
  using assms
  by (auto simp: resolve_investor_def CreateInvestor_def Let_def
           split: if_splits sum.splits option.splits)








lemma InvestInLoan_overfunding:
  assumes "0 < amount" and "GetLoanByID (outage e) loanID d = Inr loan"
    and "Loan_State loan = LoanStateApproved"
    and "resolve_investor e investorID investorName investorEmail d = (Inr investor, d1)"
    and "CallGetTotalInvested \<notin> outage e"
    and "f64_add (total_invested d loanID) amount > Loan_Principal loan"
  shows "InvestInLoan e loanID investorID investorName investorEmail amount d
           = (Inl (OverFunding (total_invested d loanID) amount (Loan_Principal loan)), d1)
         \<and> investments d1 = investments d \<and> loans d1 = loans d
         \<and> total_invested d1 loanID = total_invested d loanID"
proof -
  from GetLoanByID_Inr[OF assms(2)] have lid: "Loan_ID loan = loanID" by blast
  note fr = resolve_investor_frame[OF assms(4)]
  then have t: "total_invested d1 loanID = total_invested d loanID"
    by (simp add: total_invested_def)
  have "invest_check e loanID investorID investorName investorEmail amount d
          = (Inl (OverFunding (total_invested d loanID) amount (Loan_Principal loan)), d1)"
    unfolding invest_check_def assms(2) assms(4) GetTotalInvested_def
    using assms(1,3,5,6) by (simp add: lid t)
  then show ?thesis
    using fr t by (simp add: InvestInLoan_def)
qed



lemma loan_state_GetLoanByID:
  "GetLoanByID out k d = Inr loan \<Longrightarrow> loan_state d k = Some (Loan_State loan)"
  by (auto simp: GetLoanByID_def loan_state_def split: if_splits option.splits)

lemma find_map_keep_id:
  assumes "\<And>r. Loan_ID (f r) = Loan_ID r"
  shows "find (\<lambda>r. Loan_ID r = k) (map f xs) = map_option f (find (\<lambda>r. Loan_ID r = k) xs)"
  by (induction xs) (simp_all add: assms)




lemma sublist_proposed:
  "sublist ''proposed'' (''loan must be in proposed state to approve, current state: '' @ s)"
proof -
  have "''loan must be in proposed state to approve, current state: '' @ s
          = ''loan must be in '' @ ''proposed'' @ ('' state to approve, current state: '' @ s)"
    by simp
  then show ?thesis by (simp only: sublist_appendI)
qed

lemma sublist_invested:
  "sublist ''invested'' (''loan must be invested to disburse, current state: '' @ s)"
proof -
  have "''loan must be invested to disburse, current state: '' @ s
          = ''loan must be '' @ ''invested'' @ ('' to disburse, current state: '' @ s)"
    by simp
  then show ?thesis by (simp only: sublist_appendI)
qed








lemma ApproveLoan_Inr:
  assumes "ApproveLoan e loanID pictureURL employeeID approvalDate d = (Inr l, d1)"
  shows "\<exists>loan. GetLoanByID (outage e) loanID d = Inr loan
           \<and> Loan_State loan = LoanStateProposed \<and> Loan_Approval loan = None
           \<and> l = loan\<lparr>Loan_State := LoanStateApproved, Loan_UpdatedAt := time_Now e 1,
                        Loan_Approval := Some \<lparr>Approval_ID = uuid_New e 0, Approval_LoanID = loanID,
                            Approval_PictureURL = pictureURL, Approval_EmployeeID = employeeID,
                            Approval_ApprovalDate = approvalDate, Approval_CreatedAt = time_Now e 0\<rparr>\<rparr>
           \<and> d1 = d\<lparr>approvals := approvals d @ [\<lparr>Approval_ID = uuid_New e 0, Approval_LoanID = loanID,
                            Approval_PictureURL = pictureURL, Approval_EmployeeID = employeeID,
                            Approval_ApprovalDate = approvalDate, Approval_CreatedAt = time_Now e 0\<rparr>],
                     loans := map (\<lambda>r. if Loan_ID r = loanID
                                 then loan_columns (loan\<lparr>Loan_State := LoanStateApproved,
                                                         Loan_UpdatedAt := time_Now e 1\<rparr>)
                                 else r) (loans d)\<rparr>"
proof (cases "GetLoanByID (outage e) loanID d")
  case (Inl err)
  with assms show ?thesis by (simp add: ApproveLoan_def)
next
  case (Inr loan)
  from GetLoanByID_Inr[OF Inr] have lid: "Loan_ID loan = loanID"
    and ex: "\<exists>r \<in> set (loans d). Loan_ID r = loanID" by auto
  from assms Inr lid ex show ?thesis
    by (auto simp: ApproveLoan_def Let_def CreateApproval_def UpdateLoan_def
             split: if_splits sum.splits)
qed

lemma find_snoc_None:
  "find P xs = None \<Longrightarrow> find P (xs @ [x]) = (if P x then Some x else None)"
  by (induction xs) (auto split: if_splits)

lemma ApproveLoan_Inl:
  assumes "ApproveLoan e loanID pictureURL employeeID approvalDate d = (Inl err, d1)"
  shows "d1 = d
         \<or> (CallUpdateLoan \<in> outage e \<and> err = PersistenceFailure
            \<and> GetLoanByID (outage e) loanID d1 \<noteq> Inl NotFound
            \<and> loan_state d1 loanID = Some LoanStateProposed
            \<and> d1 = d\<lparr>approvals := approvals d @ [\<lparr>Approval_ID = uuid_New e 0, Approval_LoanID = loanID,
                            Approval_PictureURL = pictureURL, Approval_EmployeeID = employeeID,
                            Approval_ApprovalDate = approvalDate, Approval_CreatedAt = time_Now e 0\<rparr>]\<rparr>)"
proof (cases "GetLoanByID (outage e) loanID d")
  case (Inl err)
  with assms show ?thesis by (simp add: ApproveLoan_def)
next
  case (Inr loan)
  from GetLoanByID_Inr[OF Inr] have lid: "Loan_ID loan = loanID" by auto
  have st: "loan_state d loanID = Some (Loan_State loan)"
    using loan_state_GetLoanByID[OF Inr] .
  have up: "CallGetLoanByID \<notin> outage e" using Inr by (auto simp: GetLoanByID_def split: if_splits)
  have nf: "find (\<lambda>r. Loan_ID r = loanID) (loans d) \<noteq> None"
    using st by (auto simp: loan_state_def)
  show ?thesis
  proof (cases "d1 = d")
    case True
    then show ?thesis by simp
  next
    case False
    with assms Inr lid
    have "CallUpdateLoan \<in> outage e \<and> err = PersistenceFailure \<and> Loan_State loan = LoanStateProposed
            \<and> d1 = d\<lparr>approvals := approvals d @ [\<lparr>Approval_ID = uuid_New e 0, Approval_LoanID = loanID,
                            Approval_PictureURL = pictureURL, Approval_EmployeeID = employeeID,
                            Approval_ApprovalDate = approvalDate, Approval_CreatedAt = time_Now e 0\<rparr>]\<rparr>"
      by (auto simp: ApproveLoan_def Let_def CreateApproval_def UpdateLoan_def
               split: if_splits sum.splits)
    moreover from this st have "loan_state d1 loanID = Some LoanStateProposed"
      by (simp add: loan_state_def)
    moreover from calculation nf up have "GetLoanByID (outage e) loanID d1 \<noteq> Inl NotFound"
      by (auto simp: GetLoanByID_def split: option.splits)
    ultimately show ?thesis by blast
  qed
qed

lemma ApproveLoan_reload:
  assumes "ApproveLoan e loanID pictureURL employeeID approvalDate d = (Inr l, d1)"
  shows "GetLoanByID {} loanID d1 = Inr l \<and> loan_state d1 loanID = Some LoanStateApproved"
proof -
  let ?a = "\<lparr>Approval_ID = uuid_New e 0, Approval_LoanID = loanID,
                            Approval_PictureURL = pictureURL, Approval_EmployeeID = employeeID,
                            Approval_ApprovalDate = approvalDate, Approval_CreatedAt = time_Now e 0\<rparr>"
  from ApproveLoan_Inr[OF assms] obtain loan where
    g: "GetLoanByID (outage e) loanID d = Inr loan"
    and na: "Loan_Approval loan = None"
    and l: "l = loan\<lparr>Loan_State := LoanStateApproved, Loan_UpdatedAt := time_Now e 1,
                        Loan_Approval := Some ?a\<rparr>"
    and d1: "d1 = d\<lparr>approvals := approvals d @ [?a],
                     loans := map (\<lambda>r. if Loan_ID r = loanID
                                 then loan_columns (loan\<lparr>Loan_State := LoanStateApproved,
                                                         Loan_UpdatedAt := time_Now e 1\<rparr>)
                                 else r) (loans d)\<rparr>"
    by blast
  define f where "f = (\<lambda>r. if Loan_ID r = loanID
                                 then loan_columns (loan\<lparr>Loan_State := LoanStateApproved,
                                                         Loan_UpdatedAt := time_Now e 1\<rparr>)
                                 else r)"
  from GetLoanByID_Inr[OF g] obtain r0 where
    r0: "find (\<lambda>r. Loan_ID r = loanID) (loans d) = Some r0" "Loan_ID r0 = loanID"
    and lid: "Loan_ID loan = loanID"
    and ap: "Loan_Approval loan = find (\<lambda>a. Approval_LoanID a = loanID) (approvals d)"
    and iv: "Loan_Investments loan = filter (\<lambda>i. Investment_LoanID i = loanID) (investments d)"
    and di: "Loan_Disbursement loan = find (\<lambda>x. Disbursement_LoanID x = loanID) (disbursements d)"
    by blast
  have id_f: "Loan_ID (f r) = Loan_ID r" for r by (simp add: f_def loan_columns_def lid)
  have fnd: "find (\<lambda>r. Loan_ID r = loanID) (loans d1)
               = Some (loan_columns (loan\<lparr>Loan_State := LoanStateApproved, Loan_UpdatedAt := time_Now e 1\<rparr>))"
    using find_map_keep_id[of f loanID "loans d", OF id_f] r0
    by (simp add: d1 f_def)
  have fa: "find (\<lambda>a. Approval_LoanID a = loanID) (approvals d @ [?a]) = Some ?a"
    using na ap find_snoc_None[of "\<lambda>a. Approval_LoanID a = loanID" "approvals d" ?a] by simp
  have "GetLoanByID {} loanID d1 = Inr l"
    unfolding GetLoanByID_def using fnd
    by (simp add: d1 fa l loan_columns_def lid iv[symmetric] di[symmetric])
  moreover have "loan_state d1 loanID = Some LoanStateApproved"
    using fnd by (simp add: loan_state_def loan_columns_def)
  ultimately show ?thesis by simp
qed

lemma DisburseLoan_Inr:
  assumes "DisburseLoan e loanID agreementURL employeeID disbursementDate d = (Inr l, d')"
  shows "\<exists>loan. GetLoanByID (outage e) loanID d = Inr loan
           \<and> Loan_State loan = LoanStateInvested \<and> Loan_Disbursement loan = None
           \<and> Loan_State l = LoanStateDisbursed
           \<and> loans d' = map (\<lambda>r. if Loan_ID r = loanID
                                 then loan_columns (loan\<lparr>Loan_State := LoanStateDisbursed,
                                                         Loan_UpdatedAt := time_Now e 1\<rparr>)
                                 else r) (loans d)"
proof (cases "GetLoanByID (outage e) loanID d")
  case (Inl err)
  with assms show ?thesis by (simp add: DisburseLoan_def)
next
  case (Inr loan)
  from GetLoanByID_Inr[OF Inr] have lid: "Loan_ID loan = loanID"
    and ex: "\<exists>r \<in> set (loans d). Loan_ID r = loanID" by auto
  from assms Inr lid ex show ?thesis
    by (auto simp: DisburseLoan_def Let_def CreateDisbursement_def UpdateLoan_def
             split: if_splits sum.splits)
qed

lemma DisburseLoan_loan_state:
  assumes "DisburseLoan e loanID agreementURL employeeID disbursementDate d = (Inr l, d')"
  shows "loan_state d' loanID = Some LoanStateDisbursed"
proof -
  from DisburseLoan_Inr[OF assms] obtain loan where
    g: "GetLoanByID (outage e) loanID d = Inr loan"
    and ls: "loans d' = map (\<lambda>r. if Loan_ID r = loanID
                                 then loan_columns (loan\<lparr>Loan_State := LoanStateDisbursed,
                                                         Loan_UpdatedAt := time_Now e 1\<rparr>)
                                 else r) (loans d)"
    by blast
  define f where "f = (\<lambda>r. if Loan_ID r = loanID
                                 then loan_columns (loan\<lparr>Loan_State := LoanStateDisbursed,
                                                         Loan_UpdatedAt := time_Now e 1\<rparr>)
                                 else r)"
  from GetLoanByID_Inr[OF g] obtain r0 where
    r0: "find (\<lambda>r. Loan_ID r = loanID) (loans d) = Some r0" "Loan_ID r0 = loanID"
    and lid: "Loan_ID loan = loanID"
    by blast
  have id_f: "Loan_ID (f r) = Loan_ID r" for r by (simp add: f_def loan_columns_def lid)
  show ?thesis
    using find_map_keep_id[of f loanID "loans d", OF id_f] r0
    by (simp add: loan_state_def ls f_def loan_columns_def)
qed

lemma wrong_state_again:
  assumes "loan_state d loanID = Some st"
  shows "(CallGetLoanByID \<in> out \<and> GetLoanByID out loanID d = Inl PersistenceFailure)
         \<or> (CallGetLoanByID \<notin> out \<and> (\<exists>loan. GetLoanByID out loanID d = Inr loan \<and> Loan_State loan = st))"
  using assms
  by (auto simp: GetLoanByID_def loan_state_def split: option.splits)







subsection \<open>Whole amounts\<close>







subsection \<open>A contribution stored by a failing call\<close>



subsection \<open>The worked scenario, evaluated\<close>

lemmas model_defs =
  ApproveLoan_def DisburseLoan_def InvestInLoan_def invest_check_def invest_record_def
  resolve_investor_def GetLoanByID_def UpdateLoan_def CreateApproval_def CreateInvestment_def
  CreateDisbursement_def GetTotalInvested_def total_invested_def CreateInvestor_def
  GetInvestorByID_def FindInvestorByEmail_def loan_columns_def Let_def ex_env_def ex_loan_def
  f64_sum_def f64_add_def f64_round_Ints

lemma ex_db_approved_eval:
  "ex_db_approved =
     \<lparr>loans = [ex_loan LoanStateApproved 101],
      approvals = [\<lparr>Approval_ID = ''a1'', Approval_LoanID = ''L1'', Approval_PictureURL = ''proof.jpg'',
                    Approval_EmployeeID = ''EMP001'', Approval_ApprovalDate = 5,
                    Approval_CreatedAt = 100\<rparr>],
      investors = [], investments = [], disbursements = []\<rparr>"
  by (simp add: ex_db_approved_def ex_db_proposed_def model_defs)

lemma ex_db_400_eval:
  "ex_db_400 =
     ex_db_approved\<lparr>
       investors := [\<lparr>Investor_ID = ''i1'', Investor_Name = ''Alice'',
                      Investor_Email = ''alice@example.com'', Investor_CreatedAt = 100\<rparr>],
       investments := [\<lparr>Investment_ID = ''v1'', Investment_LoanID = ''L1'',
                        Investment_InvestorID = ''i1'', Investment_Amount = 400,
                        Investment_CreatedAt = 101\<rparr>]\<rparr>"
  by (simp add: ex_db_400_def ex_db_approved_eval model_defs)

lemma ex_db_funded_eval:
  "ex_db_funded =
     ex_db_400\<lparr>
       loans := [ex_loan LoanStateInvested 102],
       investors := investors ex_db_400 @
                    [\<lparr>Investor_ID = ''i2'', Investor_Name = ''Bob'',
                      Investor_Email = ''bob@example.com'', Investor_CreatedAt = 100\<rparr>],
       investments := investments ex_db_400 @
                      [\<lparr>Investment_ID = ''v2'', Investment_LoanID = ''L1'',
                        Investment_InvestorID = ''i2'', Investment_Amount = 600,
                        Investment_CreatedAt = 101\<rparr>]\<rparr>"
  by (simp add: ex_db_funded_def ex_db_400_eval ex_db_approved_eval model_defs)

lemma ex_db_disbursed_eval:
  "ex_db_disbursed =
     ex_db_funded\<lparr>
       loans := [ex_loan LoanStateDisbursed 101],
       disbursements := [\<lparr>Disbursement_ID = ''d1'', Disbursement_LoanID = ''L1'',
                          Disbursement_AgreementURL = ''signed.pdf'',
                          Disbursement_EmployeeID = ''EMP002'', Disbursement_DisbursementDate = 9,
                          Disbursement_CreatedAt = 100\<rparr>]\<rparr>"
  by (simp add: ex_db_disbursed_def ex_db_funded_eval ex_db_400_eval ex_db_approved_eval model_defs)

lemmas ex_evals = ex_db_proposed_def ex_db_approved_eval ex_db_400_eval ex_db_funded_eval ex_db_disbursed_eval

lemmas ex_rows = ex_approval_def ex_investor_def ex_investment_def



lemma ex_get_400:
  "GetLoanByID {} ''L1'' ex_db_400
     = Inr ((ex_loan LoanStateApproved 101)\<lparr>Loan_Approval := Some ex_approval,
              Loan_Investments := [ex_investment ''v1'' ''i1'' 400]\<rparr>)"
  by (simp add: ex_evals model_defs ex_rows)


lemma ex_get_approved:
  "GetLoanByID {} ''L1'' ex_db_approved
     = Inr ((ex_loan LoanStateApproved 101)\<lparr>Loan_Approval := Some ex_approval\<rparr>)"
  by (simp add: ex_evals model_defs ex_rows)

lemma ex_get_funded:
  "GetLoanByID {} ''L1'' ex_db_funded
     = Inr ((ex_loan LoanStateInvested 102)\<lparr>Loan_Approval := Some ex_approval,
              Loan_Investments := [ex_investment ''v1'' ''i1'' 400, ex_investment ''v2'' ''i2'' 600]\<rparr>)"
  by (simp add: ex_evals model_defs ex_rows)

lemma ex_get_disbursed:
  "GetLoanByID {} ''L1'' ex_db_disbursed
     = Inr ((ex_loan LoanStateDisbursed 101)\<lparr>Loan_Approval := Some ex_approval,
              Loan_Investments := [ex_investment ''v1'' ''i1'' 400, ex_investment ''v2'' ''i2'' 600],
              Loan_Disbursement := Some \<lparr>Disbursement_ID = ''d1'', Disbursement_LoanID = ''L1'',
                          Disbursement_AgreementURL = ''signed.pdf'',
                          Disbursement_EmployeeID = ''EMP002'', Disbursement_DisbursementDate = 9,
                          Disbursement_CreatedAt = 100\<rparr>\<rparr>)"
  by (simp add: ex_evals model_defs ex_rows)




lemma ex_approve:
  "ApproveLoan (ex_env {} ''a1'' []) ''L1'' ''proof.jpg'' ''EMP001'' 5 ex_db_proposed
     = (Inr ((ex_loan LoanStateApproved 101)\<lparr>Loan_Approval := Some ex_approval\<rparr>), ex_db_approved)"
  by (simp add: ex_evals model_defs ex_rows)

lemma ex_approve_update_fails:
  "ApproveLoan (ex_env {CallUpdateLoan} ''a1'' []) ''L1'' ''proof.jpg'' ''EMP001'' 5 ex_db_proposed
     = (Inl PersistenceFailure, ex_db_proposed\<lparr>approvals := [ex_approval]\<rparr>)"
  by (simp add: ex_evals model_defs ex_rows)

lemma ex_disburse:
  "DisburseLoan (ex_env {} ''d1'' []) ''L1'' ''signed.pdf'' ''EMP002'' 9 ex_db_funded
     = (Inr ((ex_loan LoanStateDisbursed 101)\<lparr>Loan_Approval := Some ex_approval,
              Loan_Investments := [ex_investment ''v1'' ''i1'' 400, ex_investment ''v2'' ''i2'' 600],
              Loan_Disbursement := Some ex_disbursement\<rparr>),
        ex_db_disbursed)"
  by (simp add: ex_evals model_defs ex_rows ex_disbursement_def)

lemma ex_get_half_approved:
  "GetLoanByID {} ''L1'' (ex_db_proposed\<lparr>approvals := [ex_approval]\<rparr>)
     = Inr ((ex_loan LoanStateProposed 1)\<lparr>Loan_Approval := Some ex_approval\<rparr>)"
  by (simp add: ex_evals model_defs ex_rows)

lemma ex_get_half_disbursed:
  "GetLoanByID {} ''L1'' (ex_db_funded\<lparr>disbursements := [ex_disbursement]\<rparr>)
     = Inr ((ex_loan LoanStateInvested 102)\<lparr>Loan_Approval := Some ex_approval,
              Loan_Investments := [ex_investment ''v1'' ''i1'' 400, ex_investment ''v2'' ''i2'' 600],
              Loan_Disbursement := Some ex_disbursement\<rparr>)"
  by (simp add: ex_evals model_defs ex_rows ex_disbursement_def)








section \<open>The investment ledger\<close>




section \<open>Calls on the same loan\<close>




section \<open>Promotion to invested\<close>




section \<open>Contributions to a funded loan\<close>

text \<open>
  C4, as the code has it. The specification says that every loan in state invested or disbursed makes
  \<open>InvestInLoan\<close> fail with \<open>AlreadyFunded\<close>. The code compares the state with
  \<^verbatim>\<open>LoanStateInvested\<close> only: a disbursed loan falls through to the next check and fails
  with \<open>InvalidState\<close>.
\<close>

theorem InvestInLoan_disbursed_counterexample:
  "fst (InvestInLoan (ex_env {} ''i3'' ''v3'') ''L1'' [] ''Carol'' ''carol@example.com'' 100 ex_db_disbursed)
     = Inl (InvalidState ''loan must be approved to invest, current state: disbursed'')
   \<and> fst (InvestInLoan (ex_env {} ''i3'' ''v3'') ''L1'' [] ''Carol'' ''carol@example.com'' 100 ex_db_disbursed)
     \<noteq> Inl AlreadyFunded
   \<and> loan_state ex_db_disbursed ''L1'' = Some LoanStateDisbursed"
  by (simp add: ex_evals model_defs loan_state_def)

text \<open>
  C4, amended. For a positive amount, \<open>InvestInLoan\<close> on a loan in state invested fails with
  \<open>AlreadyFunded\<close>, whatever the amount and the investor, and on a loan in state disbursed
  it fails with \<open>InvalidState\<close>, the message naming the current state; in both cases the
  database is unchanged.
\<close>

theorem InvestInLoan_funded_loan_rejected:
  "0 < amount \<and> GetLoanByID (outage e) loanID d = Inr loan \<longrightarrow>
     (Loan_State loan = LoanStateInvested \<longrightarrow>
        InvestInLoan e loanID investorID investorName investorEmail amount d = (Inl AlreadyFunded, d))
     \<and> (Loan_State loan = LoanStateDisbursed \<longrightarrow>
        InvestInLoan e loanID investorID investorName investorEmail amount d
          = (Inl (InvalidState ''loan must be approved to invest, current state: disbursed''), d))"
  by (simp add: InvestInLoan_def invest_check_def)

theorem InvestInLoan_funded_loan_rejected_witness:
  "(0::real) < 1
   \<and> loan_state ex_db_funded ''L1'' = Some LoanStateInvested
   \<and> InvestInLoan (ex_env {} ''i3'' ''v3'') ''L1'' [] ''Carol'' ''carol@example.com'' 1 ex_db_funded
       = (Inl AlreadyFunded, ex_db_funded)
   \<and> loan_state ex_db_disbursed ''L1'' = Some LoanStateDisbursed
   \<and> InvestInLoan (ex_env {} ''i3'' ''v3'') ''L1'' [] ''Carol'' ''carol@example.com'' 1 ex_db_disbursed
       = (Inl (InvalidState ''loan must be approved to invest, current state: disbursed''),
          ex_db_disbursed)"
proof -
  have g: "GetLoanByID (outage (ex_env {} ''i3'' ''v3'')) ''L1'' ex_db_funded
             = GetLoanByID {} ''L1'' ex_db_funded"
          "GetLoanByID (outage (ex_env {} ''i3'' ''v3'')) ''L1'' ex_db_disbursed
             = GetLoanByID {} ''L1'' ex_db_disbursed"
    by (simp_all add: ex_env_def)
  from InvestInLoan_funded_loan_rejected[where amount = 1 and e = "ex_env {} ''i3'' ''v3''"
          and loanID = "''L1''" and d = ex_db_funded and investorID = "[]"
          and investorName = "''Carol''" and investorEmail = "''carol@example.com''",
          unfolded g ex_get_funded]
       InvestInLoan_funded_loan_rejected[where amount = 1 and e = "ex_env {} ''i3'' ''v3''"
          and loanID = "''L1''" and d = ex_db_disbursed and investorID = "[]"
          and investorName = "''Carol''" and investorEmail = "''carol@example.com''",
          unfolded g ex_get_disbursed]
       loan_state_GetLoanByID[OF ex_get_funded] loan_state_GetLoanByID[OF ex_get_disbursed]
  show ?thesis by (simp add: ex_loan_def)
qed

section \<open>Approval\<close>

text \<open>
  C5, as the code has it. The specification says that no execution leaves a stored Approval with the
  loan still in state proposed. \<open>ApproveLoan\<close> inserts the approval and then saves the loan,
  as two storage calls with no transaction around them: when the second call fails, the
  approval row is stored, the loan is still proposed, and the caller gets the storage error.
\<close>

theorem ApproveLoan_not_atomic_counterexample:
  "ApproveLoan (ex_env {CallUpdateLoan} ''a1'' []) ''L1'' ''proof.jpg'' ''EMP001'' 5 ex_db_proposed
     = (Inl PersistenceFailure, ex_db_proposed\<lparr>approvals := [ex_approval]\<rparr>)
   \<and> approvals ex_db_proposed = []
   \<and> approvals (ex_db_proposed\<lparr>approvals := [ex_approval]\<rparr>) = [ex_approval]
   \<and> loan_state (ex_db_proposed\<lparr>approvals := [ex_approval]\<rparr>) ''L1'' = Some LoanStateProposed"
  by (simp add: ex_approve_update_fails) (simp add: ex_db_proposed_def loan_state_def ex_loan_def)

text \<open>
  C5, amended. A successful \<open>ApproveLoan\<close> has stored both the Approval row and the state
  approved, and returns the loan with that approval attached: the loan it returns is the loan
  a reload returns. A failing \<open>ApproveLoan\<close> leaves the database as it was, except when the
  insert of the approval succeeded and the save of the loan failed: then the approval row is
  stored and the loan is still proposed.
\<close>

theorem ApproveLoan_persists_both_on_success:
  "(ApproveLoan e loanID pictureURL employeeID approvalDate d = (Inr l, d') \<longrightarrow>
      \<lparr>Approval_ID = uuid_New e 0, Approval_LoanID = loanID, Approval_PictureURL = pictureURL,
        Approval_EmployeeID = employeeID, Approval_ApprovalDate = approvalDate,
        Approval_CreatedAt = time_Now e 0\<rparr> \<in> set (approvals d')
      \<and> loan_state d' loanID = Some LoanStateApproved
      \<and> Loan_State l = LoanStateApproved
      \<and> Loan_Approval l =
          Some \<lparr>Approval_ID = uuid_New e 0, Approval_LoanID = loanID, Approval_PictureURL = pictureURL,
                 Approval_EmployeeID = employeeID, Approval_ApprovalDate = approvalDate,
                 Approval_CreatedAt = time_Now e 0\<rparr>
      \<and> GetLoanByID {} loanID d' = Inr l)
   \<and> (ApproveLoan e loanID pictureURL employeeID approvalDate d = (Inl err, d'') \<longrightarrow>
        d'' = d
        \<or> (CallUpdateLoan \<in> outage e \<and> err = PersistenceFailure
            \<and> loan_state d'' loanID = Some LoanStateProposed
            \<and> d'' = d\<lparr>approvals := approvals d @
                  [\<lparr>Approval_ID = uuid_New e 0, Approval_LoanID = loanID, Approval_PictureURL = pictureURL,
                    Approval_EmployeeID = employeeID, Approval_ApprovalDate = approvalDate,
                    Approval_CreatedAt = time_Now e 0\<rparr>]\<rparr>))"
proof (intro conjI impI)
  assume a: "ApproveLoan e loanID pictureURL employeeID approvalDate d = (Inr l, d')"
  from ApproveLoan_Inr[OF a] obtain loan where
    l: "l = loan\<lparr>Loan_State := LoanStateApproved, Loan_UpdatedAt := time_Now e 1,
                        Loan_Approval := Some \<lparr>Approval_ID = uuid_New e 0, Approval_LoanID = loanID,
                            Approval_PictureURL = pictureURL, Approval_EmployeeID = employeeID,
                            Approval_ApprovalDate = approvalDate, Approval_CreatedAt = time_Now e 0\<rparr>\<rparr>"
    and ap: "approvals d' = approvals d @ [\<lparr>Approval_ID = uuid_New e 0, Approval_LoanID = loanID,
                            Approval_PictureURL = pictureURL, Approval_EmployeeID = employeeID,
                            Approval_ApprovalDate = approvalDate, Approval_CreatedAt = time_Now e 0\<rparr>]"
    by auto
  note re = ApproveLoan_reload[OF a]
  show "\<lparr>Approval_ID = uuid_New e 0, Approval_LoanID = loanID, Approval_PictureURL = pictureURL,
        Approval_EmployeeID = employeeID, Approval_ApprovalDate = approvalDate,
        Approval_CreatedAt = time_Now e 0\<rparr> \<in> set (approvals d')"
    by (simp add: ap)
  show "loan_state d' loanID = Some LoanStateApproved" using re by simp
  show "Loan_State l = LoanStateApproved" by (simp add: l)
  show "Loan_Approval l =
          Some \<lparr>Approval_ID = uuid_New e 0, Approval_LoanID = loanID, Approval_PictureURL = pictureURL,
                 Approval_EmployeeID = employeeID, Approval_ApprovalDate = approvalDate,
                 Approval_CreatedAt = time_Now e 0\<rparr>"
    by (simp add: l)
  show "GetLoanByID {} loanID d' = Inr l" using re by simp
next
  assume "ApproveLoan e loanID pictureURL employeeID approvalDate d = (Inl err, d'')"
  from ApproveLoan_Inl[OF this]
  show "d'' = d
        \<or> (CallUpdateLoan \<in> outage e \<and> err = PersistenceFailure
            \<and> loan_state d'' loanID = Some LoanStateProposed
            \<and> d'' = d\<lparr>approvals := approvals d @
                  [\<lparr>Approval_ID = uuid_New e 0, Approval_LoanID = loanID, Approval_PictureURL = pictureURL,
                    Approval_EmployeeID = employeeID, Approval_ApprovalDate = approvalDate,
                    Approval_CreatedAt = time_Now e 0\<rparr>]\<rparr>)"
    by blast
qed

theorem ApproveLoan_persists_both_on_success_witness:
  "ApproveLoan (ex_env {} ''a1'' []) ''L1'' ''proof.jpg'' ''EMP001'' 5 ex_db_proposed
     = (Inr ((ex_loan LoanStateApproved 101)\<lparr>Loan_Approval := Some ex_approval\<rparr>), ex_db_approved)
   \<and> ex_approval \<in> set (approvals ex_db_approved)
   \<and> loan_state ex_db_approved ''L1'' = Some LoanStateApproved
   \<and> GetLoanByID {} ''L1'' ex_db_approved
       = Inr ((ex_loan LoanStateApproved 101)\<lparr>Loan_Approval := Some ex_approval\<rparr>)
   \<and> ApproveLoan (ex_env {CallUpdateLoan} ''a1'' []) ''L1'' ''proof.jpg'' ''EMP001'' 5 ex_db_proposed
       = (Inl PersistenceFailure, ex_db_proposed\<lparr>approvals := [ex_approval]\<rparr>)
   \<and> ex_db_proposed\<lparr>approvals := [ex_approval]\<rparr> \<noteq> ex_db_proposed
   \<and> loan_state (ex_db_proposed\<lparr>approvals := [ex_approval]\<rparr>) ''L1'' = Some LoanStateProposed"
proof -
  have e: "uuid_New (ex_env out ''a1'' []) 0 = ''a1''" "time_Now (ex_env out ''a1'' []) 0 = 100" for out
    by (simp_all add: ex_env_def)
  have ap0: "approvals ex_db_proposed = []" by (simp add: ex_db_proposed_def)
  have ne: "ex_db_proposed\<lparr>approvals := [ex_approval]\<rparr> \<noteq> ex_db_proposed"
  proof
    assume "ex_db_proposed\<lparr>approvals := [ex_approval]\<rparr> = ex_db_proposed"
    then have "approvals (ex_db_proposed\<lparr>approvals := [ex_approval]\<rparr>) = approvals ex_db_proposed"
      by simp
    then show False by (simp add: ex_db_proposed_def)
  qed
  from ApproveLoan_persists_both_on_success[where e = "ex_env {} ''a1'' []" and loanID = "''L1''"
          and pictureURL = "''proof.jpg''" and employeeID = "''EMP001''" and approvalDate = 5
          and d = ex_db_proposed and d' = ex_db_approved
          and l = "(ex_loan LoanStateApproved 101)\<lparr>Loan_Approval := Some ex_approval\<rparr>",
          THEN conjunct1]
       ApproveLoan_persists_both_on_success[where e = "ex_env {CallUpdateLoan} ''a1'' []"
          and loanID = "''L1''"
          and pictureURL = "''proof.jpg''" and employeeID = "''EMP001''" and approvalDate = 5
          and d = ex_db_proposed and d'' = "ex_db_proposed\<lparr>approvals := [ex_approval]\<rparr>"
          and err = PersistenceFailure, THEN conjunct2]
       ex_approve ex_approve_update_fails ne
  show ?thesis by (simp add: e ex_approval_def ap0)
qed

section \<open>Operations attempted from the wrong state\<close>

text \<open>
  C6. When the loan that \<open>ApproveLoan\<close> loads is not in state proposed, the call fails with
  \<open>InvalidState\<close>; the message names the required state \<^verbatim>\<open>proposed\<close> and the current state,
  and the database is unchanged: no state change and no approval row. Likewise \<open>DisburseLoan\<close>
  on a loan that is not in state invested fails with \<open>InvalidState\<close>, its message names
  \<^verbatim>\<open>invested\<close> and the current state, and the database is unchanged.
\<close>

theorem wrong_state_is_InvalidState:
  "(GetLoanByID (outage e) loanID d = Inr loan \<and> Loan_State loan \<noteq> LoanStateProposed \<longrightarrow>
      ApproveLoan e loanID pictureURL employeeID approvalDate d
        = (Inl (InvalidState (''loan must be in proposed state to approve, current state: ''
                                @ LoanState_string (Loan_State loan))), d)
      \<and> sublist ''proposed'' (''loan must be in proposed state to approve, current state: ''
                                @ LoanState_string (Loan_State loan))
      \<and> sublist (LoanState_string (Loan_State loan))
                 (''loan must be in proposed state to approve, current state: ''
                                @ LoanState_string (Loan_State loan)))
   \<and> (GetLoanByID (outage e) loanID d = Inr loan \<and> Loan_State loan \<noteq> LoanStateInvested \<longrightarrow>
      DisburseLoan e loanID agreementURL employeeID disbursementDate d
        = (Inl (InvalidState (''loan must be invested to disburse, current state: ''
                                @ LoanState_string (Loan_State loan))), d)
      \<and> sublist ''invested'' (''loan must be invested to disburse, current state: ''
                                @ LoanState_string (Loan_State loan))
      \<and> sublist (LoanState_string (Loan_State loan))
                 (''loan must be invested to disburse, current state: ''
                                @ LoanState_string (Loan_State loan)))"
  by (simp add: ApproveLoan_def DisburseLoan_def sublist_proposed sublist_invested
           del: append.simps)

theorem wrong_state_is_InvalidState_witness:
  "ApproveLoan (ex_env {} ''a2'' []) ''L1'' ''proof2.jpg'' ''EMP001'' 6 ex_db_approved
     = (Inl (InvalidState ''loan must be in proposed state to approve, current state: approved''),
        ex_db_approved)
   \<and> DisburseLoan (ex_env {} ''d1'' []) ''L1'' ''signed.pdf'' ''EMP002'' 9 ex_db_approved
     = (Inl (InvalidState ''loan must be invested to disburse, current state: approved''),
        ex_db_approved)
   \<and> sublist ''approved'' ''loan must be invested to disburse, current state: approved''"
proof -
  let ?L = "(ex_loan LoanStateApproved 101)\<lparr>Loan_Approval := Some ex_approval\<rparr>"
  have g: "GetLoanByID (outage (ex_env {} ''a2'' [])) ''L1'' ex_db_approved = Inr ?L"
          "GetLoanByID (outage (ex_env {} ''d1'' [])) ''L1'' ex_db_approved = Inr ?L"
    using ex_get_approved by (simp_all add: ex_env_def)
  have st: "Loan_State ?L = LoanStateApproved" by (simp add: ex_loan_def)
  from wrong_state_is_InvalidState[where e = "ex_env {} ''a2'' []" and loanID = "''L1''"
          and d = ex_db_approved and loan = ?L and pictureURL = "''proof2.jpg''"
          and employeeID = "''EMP001''" and approvalDate = 6]
       wrong_state_is_InvalidState[where e = "ex_env {} ''d1'' []" and loanID = "''L1''"
          and d = ex_db_approved and loan = ?L and agreementURL = "''signed.pdf''"
          and employeeID = "''EMP002''" and disbursementDate = 9]
       g st
  show ?thesis by simp
qed

section \<open>Repeated approval and disbursement\<close>

text \<open>
  C7, as the code has it. The specification says that the second of two \<open>ApproveLoan\<close> calls fails with
  \<open>AlreadyApproved\<close>, and the second of two \<open>DisburseLoan\<close> calls with \<open>AlreadyDisbursed\<close>. The
  code checks the state before it checks for an existing record: after a successful first
  call the loan is approved (disbursed), and the second call fails at the state check with
  \<open>InvalidState\<close>.
\<close>

theorem second_call_counterexample:
  "ApproveLoan (ex_env {} ''a1'' []) ''L1'' ''proof.jpg'' ''EMP001'' 5 ex_db_proposed
     = (Inr ((ex_loan LoanStateApproved 101)\<lparr>Loan_Approval := Some ex_approval\<rparr>), ex_db_approved)
   \<and> ApproveLoan (ex_env {} ''a2'' []) ''L1'' ''proof.jpg'' ''EMP001'' 5 ex_db_approved
     = (Inl (InvalidState ''loan must be in proposed state to approve, current state: approved''),
        ex_db_approved)
   \<and> fst (ApproveLoan (ex_env {} ''a2'' []) ''L1'' ''proof.jpg'' ''EMP001'' 5 ex_db_approved)
       \<noteq> Inl AlreadyApproved
   \<and> snd (DisburseLoan (ex_env {} ''d1'' []) ''L1'' ''signed.pdf'' ''EMP002'' 9 ex_db_funded)
       = ex_db_disbursed
   \<and> loan_state ex_db_disbursed ''L1'' = Some LoanStateDisbursed
   \<and> DisburseLoan (ex_env {} ''d2'' []) ''L1'' ''signed.pdf'' ''EMP002'' 9 ex_db_disbursed
     = (Inl (InvalidState ''loan must be invested to disburse, current state: disbursed''),
        ex_db_disbursed)
   \<and> fst (DisburseLoan (ex_env {} ''d2'' []) ''L1'' ''signed.pdf'' ''EMP002'' 9 ex_db_disbursed)
       \<noteq> Inl AlreadyDisbursed"
proof -
  have a: "ApproveLoan (ex_env {} ''a2'' []) ''L1'' ''proof.jpg'' ''EMP001'' 5 ex_db_approved
     = (Inl (InvalidState ''loan must be in proposed state to approve, current state: approved''),
        ex_db_approved)"
    by (simp add: ApproveLoan_def ex_get_approved ex_env_def ex_loan_def)
  have b: "DisburseLoan (ex_env {} ''d2'' []) ''L1'' ''signed.pdf'' ''EMP002'' 9 ex_db_disbursed
     = (Inl (InvalidState ''loan must be invested to disburse, current state: disbursed''),
        ex_db_disbursed)"
    by (simp add: DisburseLoan_def ex_get_disbursed ex_env_def ex_loan_def)
  have c: "loan_state ex_db_disbursed ''L1'' = Some LoanStateDisbursed"
    using loan_state_GetLoanByID[OF ex_get_disbursed] by (simp add: ex_loan_def)
  have d: "snd (DisburseLoan (ex_env {} ''d1'' []) ''L1'' ''signed.pdf'' ''EMP002'' 9 ex_db_funded)
       = ex_db_disbursed"
    by (simp add: ex_db_disbursed_def)
  show ?thesis
    by (simp add: a b c d ex_approve)
qed

text \<open>
  C7, amended. \<open>ApproveLoan\<close> succeeds at most once on a loan: after a successful call, every
  further \<open>ApproveLoan\<close> on that loan fails and changes nothing, and unless the load of the loan
  itself fails the error is \<open>InvalidState\<close> with current state \<^verbatim>\<open>approved\<close>. \<open>AlreadyApproved\<close>
  is the error exactly for a loan that is still proposed and already has an approval row: such
  a loan makes the call fail with \<open>AlreadyApproved\<close>, and a call that fails with
  \<open>AlreadyApproved\<close> has loaded such a loan and changed nothing. Likewise a \<open>DisburseLoan\<close>
  after a successful one fails with \<open>InvalidState\<close> (current state \<^verbatim>\<open>disbursed\<close>) and changes
  nothing, and \<open>AlreadyDisbursed\<close> is the error exactly for a loan that is still invested and
  already has a disbursement row.
\<close>

theorem second_call_rejected:
  "(ApproveLoan e loanID pictureURL employeeID approvalDate d = (Inr l, d') \<longrightarrow>
      (\<exists>err. ApproveLoan e2 loanID pictureURL2 employeeID2 approvalDate2 d' = (Inl err, d')
         \<and> (CallGetLoanByID \<notin> outage e2 \<longrightarrow>
              err = InvalidState ''loan must be in proposed state to approve, current state: approved'')))
   \<and> (DisburseLoan e loanID agreementURL employeeID disbursementDate d = (Inr l, d') \<longrightarrow>
      (\<exists>err. DisburseLoan e2 loanID agreementURL2 employeeID2 disbursementDate2 d' = (Inl err, d')
         \<and> (CallGetLoanByID \<notin> outage e2 \<longrightarrow>
              err = InvalidState ''loan must be invested to disburse, current state: disbursed'')))
   \<and> (GetLoanByID (outage e) loanID d = Inr loan \<and> Loan_State loan = LoanStateProposed
        \<and> Loan_Approval loan \<noteq> None \<longrightarrow>
        ApproveLoan e loanID pictureURL employeeID approvalDate d = (Inl AlreadyApproved, d))
   \<and> (GetLoanByID (outage e) loanID d = Inr loan \<and> Loan_State loan = LoanStateInvested
        \<and> Loan_Disbursement loan \<noteq> None \<longrightarrow>
        DisburseLoan e loanID agreementURL employeeID disbursementDate d = (Inl AlreadyDisbursed, d))
   \<and> (ApproveLoan e loanID pictureURL employeeID approvalDate d = (Inl AlreadyApproved, d3) \<longrightarrow>
        d3 = d
        \<and> (\<exists>loan. GetLoanByID (outage e) loanID d = Inr loan \<and> Loan_State loan = LoanStateProposed
               \<and> Loan_Approval loan \<noteq> None))
   \<and> (DisburseLoan e loanID agreementURL employeeID disbursementDate d = (Inl AlreadyDisbursed, d3) \<longrightarrow>
        d3 = d
        \<and> (\<exists>loan. GetLoanByID (outage e) loanID d = Inr loan \<and> Loan_State loan = LoanStateInvested
               \<and> Loan_Disbursement loan \<noteq> None))"
proof (intro conjI impI)
  assume a: "ApproveLoan e loanID pictureURL employeeID approvalDate d = (Inr l, d')"
  from ApproveLoan_reload[OF a] have st: "loan_state d' loanID = Some LoanStateApproved" by simp
  from wrong_state_again[OF st, of "outage e2"]
  show "\<exists>err. ApproveLoan e2 loanID pictureURL2 employeeID2 approvalDate2 d' = (Inl err, d')
         \<and> (CallGetLoanByID \<notin> outage e2 \<longrightarrow>
              err = InvalidState ''loan must be in proposed state to approve, current state: approved'')"
    by (auto simp: ApproveLoan_def)
next
  assume a: "DisburseLoan e loanID agreementURL employeeID disbursementDate d = (Inr l, d')"
  from DisburseLoan_loan_state[OF a] have st: "loan_state d' loanID = Some LoanStateDisbursed" .
  from wrong_state_again[OF st, of "outage e2"]
  show "\<exists>err. DisburseLoan e2 loanID agreementURL2 employeeID2 disbursementDate2 d' = (Inl err, d')
         \<and> (CallGetLoanByID \<notin> outage e2 \<longrightarrow>
              err = InvalidState ''loan must be invested to disburse, current state: disbursed'')"
    by (auto simp: DisburseLoan_def)
next
  assume "GetLoanByID (outage e) loanID d = Inr loan \<and> Loan_State loan = LoanStateProposed
        \<and> Loan_Approval loan \<noteq> None"
  then show "ApproveLoan e loanID pictureURL employeeID approvalDate d = (Inl AlreadyApproved, d)"
    by (auto simp: ApproveLoan_def)
next
  assume "GetLoanByID (outage e) loanID d = Inr loan \<and> Loan_State loan = LoanStateInvested
        \<and> Loan_Disbursement loan \<noteq> None"
  then show "DisburseLoan e loanID agreementURL employeeID disbursementDate d = (Inl AlreadyDisbursed, d)"
    by (auto simp: DisburseLoan_def)
next
  assume a: "ApproveLoan e loanID pictureURL employeeID approvalDate d = (Inl AlreadyApproved, d3)"
  then show "d3 = d"
    by (auto simp: ApproveLoan_def Let_def CreateApproval_def UpdateLoan_def GetLoanByID_def
             split: if_splits sum.splits option.splits)
  from a show "\<exists>loan. GetLoanByID (outage e) loanID d = Inr loan \<and> Loan_State loan = LoanStateProposed
               \<and> Loan_Approval loan \<noteq> None"
    by (cases "GetLoanByID (outage e) loanID d")
       (auto simp: ApproveLoan_def Let_def CreateApproval_def UpdateLoan_def GetLoanByID_def
             split: if_splits sum.splits option.splits)
next
  assume a: "DisburseLoan e loanID agreementURL employeeID disbursementDate d = (Inl AlreadyDisbursed, d3)"
  then show "d3 = d"
    by (auto simp: DisburseLoan_def Let_def CreateDisbursement_def UpdateLoan_def GetLoanByID_def
             split: if_splits sum.splits option.splits)
  from a show "\<exists>loan. GetLoanByID (outage e) loanID d = Inr loan \<and> Loan_State loan = LoanStateInvested
               \<and> Loan_Disbursement loan \<noteq> None"
    by (cases "GetLoanByID (outage e) loanID d")
       (auto simp: DisburseLoan_def Let_def CreateDisbursement_def UpdateLoan_def GetLoanByID_def
             split: if_splits sum.splits option.splits)
qed

theorem second_call_rejected_witness:
  "ApproveLoan (ex_env {} ''a2'' []) ''L1'' ''proof2.jpg'' ''EMP009'' 6 ex_db_approved
     = (Inl (InvalidState ''loan must be in proposed state to approve, current state: approved''),
        ex_db_approved)
   \<and> DisburseLoan (ex_env {} ''d2'' []) ''L1'' ''signed2.pdf'' ''EMP009'' 10 ex_db_disbursed
     = (Inl (InvalidState ''loan must be invested to disburse, current state: disbursed''),
        ex_db_disbursed)
   \<and> ApproveLoan (ex_env {} ''a2'' []) ''L1'' ''proof2.jpg'' ''EMP009'' 6
        (ex_db_proposed\<lparr>approvals := [ex_approval]\<rparr>)
     = (Inl AlreadyApproved, ex_db_proposed\<lparr>approvals := [ex_approval]\<rparr>)
   \<and> DisburseLoan (ex_env {} ''d2'' []) ''L1'' ''signed2.pdf'' ''EMP009'' 10
        (ex_db_funded\<lparr>disbursements := [ex_disbursement]\<rparr>)
     = (Inl AlreadyDisbursed, ex_db_funded\<lparr>disbursements := [ex_disbursement]\<rparr>)
   \<and> loan_state (ex_db_proposed\<lparr>approvals := [ex_approval]\<rparr>) ''L1'' = Some LoanStateProposed
   \<and> approvals (ex_db_proposed\<lparr>approvals := [ex_approval]\<rparr>) = [ex_approval]
   \<and> loan_state (ex_db_funded\<lparr>disbursements := [ex_disbursement]\<rparr>) ''L1'' = Some LoanStateInvested
   \<and> disbursements (ex_db_funded\<lparr>disbursements := [ex_disbursement]\<rparr>) = [ex_disbursement]"
proof -
  have o: "outage (ex_env {} u0 u1) = {}" for u0 u1 by (simp add: ex_env_def)
  have s: "Loan_State (ex_loan st upd) = st" for st upd by (simp add: ex_loan_def)
  have 1: "ApproveLoan (ex_env {} ''a2'' []) ''L1'' ''proof2.jpg'' ''EMP009'' 6 ex_db_approved
     = (Inl (InvalidState ''loan must be in proposed state to approve, current state: approved''),
        ex_db_approved)"
    using second_call_rejected[where e = "ex_env {} ''a1'' []" and loanID = "''L1''"
            and pictureURL = "''proof.jpg''" and employeeID = "''EMP001''" and approvalDate = 5
            and d = ex_db_proposed and d' = ex_db_approved
            and l = "(ex_loan LoanStateApproved 101)\<lparr>Loan_Approval := Some ex_approval\<rparr>"
            and ?e2.0 = "ex_env {} ''a2'' []" and ?pictureURL2.0 = "''proof2.jpg''"
            and ?employeeID2.0 = "''EMP009''" and ?approvalDate2.0 = 6, THEN conjunct1]
          ex_approve
    by (auto simp: o)
  have 2: "DisburseLoan (ex_env {} ''d2'' []) ''L1'' ''signed2.pdf'' ''EMP009'' 10 ex_db_disbursed
     = (Inl (InvalidState ''loan must be invested to disburse, current state: disbursed''),
        ex_db_disbursed)"
    using second_call_rejected[where e = "ex_env {} ''d1'' []" and loanID = "''L1''"
            and agreementURL = "''signed.pdf''" and employeeID = "''EMP002''" and disbursementDate = 9
            and d = ex_db_funded and d' = ex_db_disbursed
            and l = "(ex_loan LoanStateDisbursed 101)\<lparr>Loan_Approval := Some ex_approval,
              Loan_Investments := [ex_investment ''v1'' ''i1'' 400, ex_investment ''v2'' ''i2'' 600],
              Loan_Disbursement := Some ex_disbursement\<rparr>"
            and ?e2.0 = "ex_env {} ''d2'' []" and ?agreementURL2.0 = "''signed2.pdf''"
            and ?employeeID2.0 = "''EMP009''" and ?disbursementDate2.0 = 10,
            THEN conjunct2, THEN conjunct1]
          ex_disburse
    by (auto simp: o)
  have 3: "ApproveLoan (ex_env {} ''a2'' []) ''L1'' ''proof2.jpg'' ''EMP009'' 6
        (ex_db_proposed\<lparr>approvals := [ex_approval]\<rparr>)
     = (Inl AlreadyApproved, ex_db_proposed\<lparr>approvals := [ex_approval]\<rparr>)"
    using second_call_rejected[where e = "ex_env {} ''a2'' []" and loanID = "''L1''"
            and pictureURL = "''proof2.jpg''" and employeeID = "''EMP009''" and approvalDate = 6
            and d = "ex_db_proposed\<lparr>approvals := [ex_approval]\<rparr>"
            and loan = "(ex_loan LoanStateProposed 1)\<lparr>Loan_Approval := Some ex_approval\<rparr>",
            THEN conjunct2, THEN conjunct2, THEN conjunct1]
          ex_get_half_approved
    by (simp add: o s)
  have 4: "DisburseLoan (ex_env {} ''d2'' []) ''L1'' ''signed2.pdf'' ''EMP009'' 10
        (ex_db_funded\<lparr>disbursements := [ex_disbursement]\<rparr>)
     = (Inl AlreadyDisbursed, ex_db_funded\<lparr>disbursements := [ex_disbursement]\<rparr>)"
    using second_call_rejected[where e = "ex_env {} ''d2'' []" and loanID = "''L1''"
            and agreementURL = "''signed2.pdf''" and employeeID = "''EMP009''" and disbursementDate = 10
            and d = "ex_db_funded\<lparr>disbursements := [ex_disbursement]\<rparr>"
            and loan = "(ex_loan LoanStateInvested 102)\<lparr>Loan_Approval := Some ex_approval,
              Loan_Investments := [ex_investment ''v1'' ''i1'' 400, ex_investment ''v2'' ''i2'' 600],
              Loan_Disbursement := Some ex_disbursement\<rparr>",
            THEN conjunct2, THEN conjunct2, THEN conjunct2]
          ex_get_half_disbursed
    by (simp add: o s)
  have 5: "\<exists>loan. GetLoanByID {} ''L1'' (ex_db_proposed\<lparr>approvals := [ex_approval]\<rparr>) = Inr loan
             \<and> Loan_State loan = LoanStateProposed \<and> Loan_Approval loan \<noteq> None"
    using second_call_rejected[where e = "ex_env {} ''a2'' []" and loanID = "''L1''"
            and pictureURL = "''proof2.jpg''" and employeeID = "''EMP009''" and approvalDate = 6
            and d = "ex_db_proposed\<lparr>approvals := [ex_approval]\<rparr>"
            and ?d3.0 = "ex_db_proposed\<lparr>approvals := [ex_approval]\<rparr>",
            THEN conjunct2, THEN conjunct2, THEN conjunct2, THEN conjunct2, THEN conjunct1]
          3
    by (simp add: o)
  have 6: "\<exists>loan. GetLoanByID {} ''L1'' (ex_db_funded\<lparr>disbursements := [ex_disbursement]\<rparr>) = Inr loan
             \<and> Loan_State loan = LoanStateInvested \<and> Loan_Disbursement loan \<noteq> None"
    using second_call_rejected[where e = "ex_env {} ''d2'' []" and loanID = "''L1''"
            and agreementURL = "''signed2.pdf''" and employeeID = "''EMP009''" and disbursementDate = 10
            and d = "ex_db_funded\<lparr>disbursements := [ex_disbursement]\<rparr>"
            and ?d3.0 = "ex_db_funded\<lparr>disbursements := [ex_disbursement]\<rparr>",
            THEN conjunct2, THEN conjunct2, THEN conjunct2, THEN conjunct2, THEN conjunct2]
          4
    by (simp add: o)
  from 5 have 7: "loan_state (ex_db_proposed\<lparr>approvals := [ex_approval]\<rparr>) ''L1'' = Some LoanStateProposed"
    using loan_state_GetLoanByID by fastforce
  from 6 have 8: "loan_state (ex_db_funded\<lparr>disbursements := [ex_disbursement]\<rparr>) ''L1'' = Some LoanStateInvested"
    using loan_state_GetLoanByID by fastforce
  from 1 2 3 4 7 8 show ?thesis by simp
qed

section \<open>Resolution of the investor\<close>



section \<open>Validation of the amount\<close>

text \<open>
  C9. A contribution amount that is zero or negative makes \<open>InvestInLoan\<close> fail with
  \<open>InvalidAmount\<close>, whatever the database holds and whichever storage calls would fail: the
  result does not depend on any repository method, and the database is returned as it was.
\<close>

theorem InvestInLoan_invalid_amount:
  "amount \<le> 0 \<Longrightarrow>
     InvestInLoan e loanID investorID investorName investorEmail amount d = (Inl InvalidAmount, d)"
  by (simp add: InvestInLoan_def invest_check_def)

theorem InvestInLoan_invalid_amount_witness:
  "(0::real) \<le> 0
   \<and> InvestInLoan (ex_env UNIV ''i1'' ''v1'') ''loanid'' [] ''name'' ''email'' 0 ex_db_approved
       = (Inl InvalidAmount, ex_db_approved)
   \<and> InvestInLoan (ex_env {} ''i1'' ''v1'') ''L1'' [] ''name'' ''email'' (- 5) ex_db_approved
       = (Inl InvalidAmount, ex_db_approved)"
  using InvestInLoan_invalid_amount[of 0 "ex_env UNIV ''i1'' ''v1''" "''loanid''" "[]" "''name''" "''email''" ex_db_approved]
        InvestInLoan_invalid_amount[of "- 5" "ex_env {} ''i1'' ''v1''" "''L1''" "[]" "''name''" "''email''" ex_db_approved]
  by simp

section \<open>An investor created before a rejected contribution\<close>

text \<open>
  C10. A call without investor identity whose address is empty or matches no investor creates
  and stores a new investor before the over-funding guard runs: when the loan is approved, the
  amount positive and the guard \<^verbatim>\<open>currentTotal+amount > loan.Principal\<close> true, the call fails with
  \<open>OverFunding\<close> and the database it leaves differs from the one it found in exactly the new
  investor row; loans, approvals, investments and disbursements are unchanged.
\<close>

theorem InvestInLoan_overfunding_keeps_new_investor:
  assumes "0 < amount"
    and "GetLoanByID (outage e) loanID d = Inr loan"
    and "Loan_State loan = LoanStateApproved"
    and "investorEmail = [] \<or> FindInvestorByEmail (outage e) investorEmail d = Inr None"
    and "CallCreateInvestor \<notin> outage e"
    and "uuid_New e 0 \<notin> Investor_ID ` set (investors d)"
    and "CallGetTotalInvested \<notin> outage e"
    and "f64_add (total_invested d loanID) amount > Loan_Principal loan"
  shows "InvestInLoan e loanID [] investorName investorEmail amount d
           = (Inl (OverFunding (total_invested d loanID) amount (Loan_Principal loan)),
              d\<lparr>investors := investors d @
                   [\<lparr>Investor_ID = uuid_New e 0, Investor_Name = investorName,
                     Investor_Email = investorEmail, Investor_CreatedAt = time_Now e 0\<rparr>]\<rparr>)"
proof -
  let ?new = "\<lparr>Investor_ID = uuid_New e 0, Investor_Name = investorName,
                     Investor_Email = investorEmail, Investor_CreatedAt = time_Now e 0\<rparr>"
  have c: "CreateInvestor (outage e) ?new d = Inr (d\<lparr>investors := investors d @ [?new]\<rparr>)"
    using assms(5,6) by (force simp: CreateInvestor_def)
  have "resolve_investor e [] investorName investorEmail d
          = (Inr ?new, d\<lparr>investors := investors d @ [?new]\<rparr>)"
    using assms(4) c by (auto simp: resolve_investor_def Let_def)
  from InvestInLoan_overfunding[OF assms(1,2,3) this assms(7,8)]
  show ?thesis by simp
qed

theorem InvestInLoan_overfunding_keeps_new_investor_witness:
  "InvestInLoan (ex_env {} ''i2'' ''v2'') ''L1'' [] ''Bob'' ''bob@example.com'' 700 ex_db_400
     = (Inl (OverFunding 400 700 1000),
        ex_db_400\<lparr>investors := investors ex_db_400 @ [ex_investor ''i2'' ''Bob'' ''bob@example.com'']\<rparr>)
   \<and> investors ex_db_400 = [ex_investor ''i1'' ''Alice'' ''alice@example.com'']
   \<and> InvestInLoan (ex_env {} ''i3'' ''v3'') ''L1'' [] ''Carol'' [] 700 ex_db_400
     = (Inl (OverFunding 400 700 1000),
        ex_db_400\<lparr>investors := investors ex_db_400 @ [ex_investor ''i3'' ''Carol'' []]\<rparr>)"
proof -
  let ?L = "(ex_loan LoanStateApproved 101)\<lparr>Loan_Approval := Some ex_approval,
              Loan_Investments := [ex_investment ''v1'' ''i1'' 400]\<rparr>"
  have g: "GetLoanByID (outage (ex_env {} u0 u1)) ''L1'' ex_db_400 = Inr ?L" for u0 u1
    using ex_get_400 by (simp add: ex_env_def)
  have p: "Loan_Principal ?L = 1000" "Loan_State ?L = LoanStateApproved"
    by (simp_all add: ex_loan_def)
  have t: "total_invested ex_db_400 ''L1'' = 400" "f64_add 400 700 = 1100"
    by (simp_all add: total_invested_def f64_sum_def f64_add_def f64_round_Ints ex_evals)
  have f: "FindInvestorByEmail (outage (ex_env {} ''i2'' ''v2'')) ''bob@example.com'' ex_db_400 = Inr None"
    by (simp add: FindInvestorByEmail_def ex_evals ex_env_def)
  have i: "investors ex_db_400 = [ex_investor ''i1'' ''Alice'' ''alice@example.com'']"
    by (simp add: ex_evals ex_rows)
  have e: "outage (ex_env {} u0 u1) = {}" "uuid_New (ex_env {} u0 u1) 0 = u0"
          "time_Now (ex_env {} u0 u1) 0 = 100" for u0 u1
    by (simp_all add: ex_env_def)
  have 1: "InvestInLoan (ex_env {} ''i2'' ''v2'') ''L1'' [] ''Bob'' ''bob@example.com'' 700 ex_db_400
     = (Inl (OverFunding 400 700 1000),
        ex_db_400\<lparr>investors := investors ex_db_400 @ [ex_investor ''i2'' ''Bob'' ''bob@example.com'']\<rparr>)"
    using InvestInLoan_overfunding_keeps_new_investor[where amount = 700
            and e = "ex_env {} ''i2'' ''v2''" and loanID = "''L1''" and d = ex_db_400 and loan = ?L
            and investorEmail = "''bob@example.com''" and investorName = "''Bob''"]
          g p t f
    by (simp add: e i ex_investor_def)
  have 2: "InvestInLoan (ex_env {} ''i3'' ''v3'') ''L1'' [] ''Carol'' [] 700 ex_db_400
     = (Inl (OverFunding 400 700 1000),
        ex_db_400\<lparr>investors := investors ex_db_400 @ [ex_investor ''i3'' ''Carol'' []]\<rparr>)"
    using InvestInLoan_overfunding_keeps_new_investor[where amount = 700
            and e = "ex_env {} ''i3'' ''v3''" and loanID = "''L1''" and d = ex_db_400 and loan = ?L
            and investorEmail = "[]" and investorName = "''Carol''"]
          g p t
    by (simp add: e i ex_investor_def)
  from 1 2 i show ?thesis by simp
qed

end
